theory Spec2Isabelle
  imports Complex_Main "HOL-Library.Log_Nat"
begin

section \<open>Sahaay AI voice orchestration: data model\<close>

text \<open>
  The embedding follows \<^verbatim>\<open>src/services/voiceInterface.ts\<close> (the session orchestrator
  \<^verbatim>\<open>VoiceInterfaceImpl\<close> and, in the same file, the recognition cascade
  \<^verbatim>\<open>SpeechToTextServiceImpl\<close>), the audio processor that is stored after the intent
  recognition service, and the text-to-speech service \<^verbatim>\<open>TextToSpeechServiceImpl\<close>.

  Conventions.
  \<^item> Language codes and session ids are run-time strings: the type \<^verbatim>\<open>LanguageCode\<close> is a
    TypeScript annotation only, and the tests pass \<^verbatim>\<open>'fr' as LanguageCode\<close>.
  \<^item> The content of a text is a list of UTF-16 code units, so that \<^verbatim>\<open>trim()\<close> can be
    modelled on the whole white-space set of ECMAScript.
  \<^item> A finite JavaScript number is the rational it denotes, and counters are naturals;
    where the source multiplies numbers that are not integers, the product is rounded to
    the nearest double as IEEE 754 prescribes.
  \<^item> A thrown exception is the left injection of a sum; an \<^verbatim>\<open>async\<close> function is the
    function of its resolved or rejected value.
  \<^item> The clock is an input: each \<^verbatim>\<open>new Date()\<close> of the source is an argument.
  \<^item> A collaborator whose answer the source awaits (a recognition backend, a synthesis
    engine) is a record of its answers, and every invocation is written to a call log.
\<close>

type_synonym LanguageCode = string
type_synonym jstext = "nat list"

datatype InputMode = voice_mode | text_mode

datatype FallbackReason = multiple_failures | low_confidence | service_unavailable

record FallbackSuggestion =
  shouldSuggestFallback :: bool
  reason :: FallbackReason
  fs_failureCount :: nat
  lastSuccessfulMode :: "InputMode option"

text \<open>
  \<^verbatim>\<open>Error m\<close> is \<^verbatim>\<open>new Error(m)\<close>. \<^verbatim>\<open>VoiceInputError m b s\<close> is the class of the same
  name with its message, \<^verbatim>\<open>suggestTextFallback\<close> and the attached \<^verbatim>\<open>fallbackSuggestion\<close>.
\<close>

datatype error =
    Error string
  | VoiceInputError string bool "FallbackSuggestion option"

fun message :: "error \<Rightarrow> string" where
  "message (Error m) = m"
| "message (VoiceInputError m b s) = m"

record Blob =
  blob_size :: nat
  blob_type :: string

record TranscriptionResult =
  text_of :: jstext
  confidence :: rat
  detectedLanguage :: LanguageCode
  alternatives :: "jstext list option"

text \<open>JavaScript truthiness of an optional string: \<^verbatim>\<open>undefined\<close> and \<^verbatim>\<open>''\<close> are falsy.\<close>

fun truthy :: "string option \<Rightarrow> bool" where
  "truthy None = False"
| "truthy (Some s) = (s \<noteq> [])"

text \<open>The string behind a truthy optional string, \<open>None\<close> behind a falsy one.\<close>

fun given :: "string option \<Rightarrow> string option" where
  "given None = None"
| "given (Some s) = (if s = [] then None else Some s)"

section \<open>Recognition cascade\<close>

record STTConfig =
  fallbackToOffline :: bool
  compressionEnabled :: bool
  confidenceThreshold :: rat
  supportedLanguages :: "LanguageCode list"

definition default_STTConfig :: STTConfig where
  "default_STTConfig =
     \<lparr> fallbackToOffline = True, compressionEnabled = True, confidenceThreshold = 8 / 10,
       supportedLanguages = [''en'', ''hi'', ''ta'', ''te'', ''bn''] \<rparr>"

text \<open>
  \<^verbatim>\<open>CloudSTTService\<close> and \<^verbatim>\<open>WhisperSTTService\<close> as the cascade sees them: what
  \<^verbatim>\<open>isAvailable()\<close> resolves to (both catch and answer \<^verbatim>\<open>false\<close>), what
  \<^verbatim>\<open>transcribe\<close> resolves to or rejects with, what the language detection answers, and
  the list \<^verbatim>\<open>getSupportedLanguages()\<close> returns.
\<close>

record STTBackend =
  isAvailable :: bool
  transcribe_b :: "Blob \<Rightarrow> LanguageCode option \<Rightarrow> error + TranscriptionResult"
  detect_b :: "Blob \<Rightarrow> error + LanguageCode"
  getSupportedLanguages :: "LanguageCode list"

datatype stt_call =
    CloudIsAvailable
  | CloudTranscribe Blob "LanguageCode option"
  | WhisperIsAvailable
  | WhisperTranscribe Blob "LanguageCode option"

fun is_whisper_call :: "stt_call \<Rightarrow> bool" where
  "is_whisper_call WhisperIsAvailable = True"
| "is_whisper_call (WhisperTranscribe b l) = True"
| "is_whisper_call c = False"

fun is_whisper_transcribe :: "stt_call \<Rightarrow> bool" where
  "is_whisper_transcribe (WhisperTranscribe b l) = True"
| "is_whisper_transcribe c = False"

text \<open>
  The second half of \<^verbatim>\<open>SpeechToTextServiceImpl.transcribe\<close>: the offline service is asked
  only behind the configuration switch (\<^verbatim>\<open>&&\<close> short-circuits), and the language is
  handed over without any look at a supported set.
\<close>

definition offline_fallback ::
  "STTConfig \<Rightarrow> STTBackend \<Rightarrow> Blob \<Rightarrow> LanguageCode option \<Rightarrow> stt_call list
     \<Rightarrow> (error + TranscriptionResult) \<times> stt_call list" where
  "offline_fallback cfg whisper audioBlob language calls =
     (if fallbackToOffline cfg then
        (if isAvailable whisper then
           (transcribe_b whisper audioBlob language,
            calls @ [WhisperIsAvailable, WhisperTranscribe audioBlob language])
         else (Inl (Error ''No STT service available''), calls @ [WhisperIsAvailable]))
      else (Inl (Error ''No STT service available''), calls))"

definition transcribe ::
  "STTConfig \<Rightarrow> STTBackend \<Rightarrow> STTBackend \<Rightarrow> Blob \<Rightarrow> LanguageCode option
     \<Rightarrow> (error + TranscriptionResult) \<times> stt_call list" where
  "transcribe cfg cloud whisper audioBlob language =
     (if isAvailable cloud then
        (case transcribe_b cloud audioBlob language of
           Inl e \<Rightarrow> (Inl e, [CloudIsAvailable, CloudTranscribe audioBlob language])
         | Inr result \<Rightarrow>
             if confidenceThreshold cfg \<le> confidence result
             then (Inr result, [CloudIsAvailable, CloudTranscribe audioBlob language])
             else offline_fallback cfg whisper audioBlob language
                    [CloudIsAvailable, CloudTranscribe audioBlob language])
      else offline_fallback cfg whisper audioBlob language [CloudIsAvailable])"

text \<open>\<^verbatim>\<open>SpeechToTextServiceImpl.detectLanguage\<close>: cloud first, then offline, then Hindi.\<close>

definition stt_detectLanguage :: "STTBackend \<Rightarrow> STTBackend \<Rightarrow> Blob \<Rightarrow> LanguageCode" where
  "stt_detectLanguage cloud whisper audioBlob =
     (if isAvailable cloud then
        (case detect_b cloud audioBlob of Inl e \<Rightarrow> ''hi'' | Inr l \<Rightarrow> l)
      else if isAvailable whisper then
        (case detect_b whisper audioBlob of Inl e \<Rightarrow> ''hi'' | Inr l \<Rightarrow> l)
      else ''hi'')"

text \<open>Concrete collaborators used by the closed instances below.\<close>

definition sample_blob :: Blob where
  "sample_blob = \<lparr> blob_size = 2048, blob_type = ''audio/wav'' \<rparr>"

definition sample_result :: "rat \<Rightarrow> LanguageCode \<Rightarrow> TranscriptionResult" where
  "sample_result c l =
     \<lparr> text_of = [104, 105], confidence = c, detectedLanguage = l, alternatives = None \<rparr>"

definition steady_backend :: "bool \<Rightarrow> rat \<Rightarrow> STTBackend" where
  "steady_backend up c =
     \<lparr> isAvailable = up,
       transcribe_b = (\<lambda>b l. Inr (sample_result c (case l of None \<Rightarrow> ''hi'' | Some x \<Rightarrow> x))),
       detect_b = (\<lambda>b. Inr ''hi''),
       getSupportedLanguages = [''en'', ''hi'', ''ta'', ''te'', ''bn''] \<rparr>"

section \<open>Session orchestrator\<close>

record HistoryEntry =
  h_timestamp :: nat
  h_inputMode :: InputMode
  h_success :: bool
  h_language :: LanguageCode

record VoiceContext =
  sessionId :: string
  currentLanguage :: LanguageCode
  inputMode :: InputMode
  lastInteraction :: nat
  failureCount :: nat
  totalInteractions :: nat
  fallbackSuggested :: bool
  conversationHistory :: "HistoryEntry list"

type_synonym registry = "string \<rightharpoonup> VoiceContext"

record VoiceInterfaceConfig =
  enableVoiceInput :: bool
  enableVoiceOutput :: bool
  fallbackToText :: bool
  preserveContext :: bool
  audioCompression :: bool
  defaultLanguage :: LanguageCode
  maxFailuresBeforeFallback :: nat
  contextTimeoutMinutes :: nat

definition default_VoiceInterfaceConfig :: VoiceInterfaceConfig where
  "default_VoiceInterfaceConfig =
     \<lparr> enableVoiceInput = True, enableVoiceOutput = True, fallbackToText = True,
       preserveContext = True, audioCompression = True, defaultLanguage = ''hi'',
       maxFailuresBeforeFallback = 2, contextTimeoutMinutes = 30 \<rparr>"

text \<open>
  The \<^verbatim>\<open>sttService\<close> field of the orchestrator, typed by the interface
  \<^verbatim>\<open>SpeechToTextService\<close>: what \<^verbatim>\<open>transcribe\<close> resolves to or rejects with, and, when the
  object is an instance of \<^verbatim>\<open>SpeechToTextServiceImpl\<close>, its \<^verbatim>\<open>detectLanguage\<close>
  (\<open>None\<close> is a service of another class, such as the mocks of the tests).
\<close>

record SpeechToTextService =
  stt_transcribe :: "Blob \<Rightarrow> LanguageCode option \<Rightarrow> error + TranscriptionResult"
  stt_detect :: "(Blob \<Rightarrow> error + LanguageCode) option"

definition SpeechToTextServiceImpl ::
  "STTConfig \<Rightarrow> STTBackend \<Rightarrow> STTBackend \<Rightarrow> SpeechToTextService" where
  "SpeechToTextServiceImpl cfg cloud whisper =
     \<lparr> stt_transcribe = (\<lambda>b l. fst (transcribe cfg cloud whisper b l)),
       stt_detect = Some (\<lambda>b. Inr (stt_detectLanguage cloud whisper b)) \<rparr>"

datatype svc_call =
    SvcDetectLanguage Blob
  | SvcTranscribe Blob "LanguageCode option"

text \<open>\<^verbatim>\<open>xs.slice(-n)\<close>: the last \<open>n\<close> elements, all of them when there are fewer.\<close>

definition slice_last :: "nat \<Rightarrow> 'a list \<Rightarrow> 'a list" where
  "slice_last n xs = drop (length xs - n) xs"

text \<open>\<^verbatim>\<open>a || b\<close> on an optional string \<open>a\<close>.\<close>

definition or_else :: "string option \<Rightarrow> string \<Rightarrow> string" where
  "or_else a b = (case given a of None \<Rightarrow> b | Some s \<Rightarrow> s)"

text \<open>Decimal rendering of a counter inside a template literal.\<close>

fun decimal :: "nat \<Rightarrow> string" where
  "decimal n =
     (if n < 10 then [char_of (48 + n)]
      else decimal (n div 10) @ [char_of (48 + n mod 10)])"

declare decimal.simps [simp del]

definition setContext ::
  "VoiceInterfaceConfig \<Rightarrow> registry \<Rightarrow> string \<Rightarrow> LanguageCode \<Rightarrow> InputMode \<Rightarrow> nat
     \<Rightarrow> registry" where
  "setContext cfg contexts sid language mode now =
     (if \<not> preserveContext cfg then contexts
      else
        let existingContext = contexts sid in
        contexts(sid \<mapsto>
          \<lparr> sessionId = sid,
            currentLanguage = language,
            inputMode = mode,
            lastInteraction = now,
            failureCount = (case existingContext of None \<Rightarrow> 0 | Some c \<Rightarrow> failureCount c),
            totalInteractions =
              (case existingContext of None \<Rightarrow> 0 | Some c \<Rightarrow> totalInteractions c) + 1,
            fallbackSuggested =
              (case existingContext of None \<Rightarrow> False | Some c \<Rightarrow> fallbackSuggested c),
            conversationHistory =
              slice_last 10
                ((case existingContext of None \<Rightarrow> [] | Some c \<Rightarrow> conversationHistory c)
                 @ [\<lparr> h_timestamp = now, h_inputMode = mode, h_success = True,
                      h_language = language \<rparr>]) \<rparr>))"

definition clearContext :: "registry \<Rightarrow> string \<Rightarrow> registry" where
  "clearContext contexts sid = contexts(sid := None)"

definition switchInputMode ::
  "registry \<Rightarrow> string \<Rightarrow> InputMode \<Rightarrow> nat \<Rightarrow> nat \<Rightarrow> bool \<times> registry" where
  "switchInputMode contexts sid newMode now now' =
     (case contexts sid of
        None \<Rightarrow> (False, contexts)
      | Some c \<Rightarrow>
          (True,
           contexts(sid \<mapsto>
             c\<lparr> inputMode := newMode,
                lastInteraction := now,
                failureCount := 0,
                fallbackSuggested := False,
                conversationHistory :=
                  slice_last 10
                    (conversationHistory c
                     @ [\<lparr> h_timestamp = now', h_inputMode = newMode, h_success = True,
                          h_language = currentLanguage c \<rparr>]) \<rparr>)))"

definition updateContextOnSuccess ::
  "VoiceInterfaceConfig \<Rightarrow> registry \<Rightarrow> string \<Rightarrow> LanguageCode \<Rightarrow> InputMode \<Rightarrow> nat \<Rightarrow> nat
     \<Rightarrow> registry" where
  "updateContextOnSuccess cfg contexts sid language mode now now' =
     (if \<not> preserveContext cfg then contexts
      else
        (case contexts sid of
           None \<Rightarrow> contexts
         | Some c \<Rightarrow>
             contexts(sid \<mapsto>
               c\<lparr> currentLanguage := language,
                  lastInteraction := now,
                  failureCount := 0,
                  totalInteractions := totalInteractions c + 1,
                  conversationHistory :=
                    slice_last 10
                      (conversationHistory c
                       @ [\<lparr> h_timestamp = now', h_inputMode = mode, h_success = True,
                            h_language = language \<rparr>]) \<rparr>)))"

text \<open>
  \<^verbatim>\<open>updateContextOnFailure\<close>. The history entry is pushed before the check, and the
  check reads the \<^verbatim>\<open>inputMode\<close> argument, not the mode stored in the context.
\<close>

definition updateContextOnFailure ::
  "VoiceInterfaceConfig \<Rightarrow> registry \<Rightarrow> string \<Rightarrow> InputMode \<Rightarrow> nat \<Rightarrow> nat
     \<Rightarrow> FallbackSuggestion \<times> registry" where
  "updateContextOnFailure cfg contexts sid mode now now' =
     (case contexts sid of
        None \<Rightarrow>
          (\<lparr> shouldSuggestFallback = False, reason = multiple_failures, fs_failureCount = 0,
             lastSuccessfulMode = None \<rparr>, contexts)
      | Some c0 \<Rightarrow>
          let c = c0\<lparr> failureCount := failureCount c0 + 1,
                      lastInteraction := now,
                      totalInteractions := totalInteractions c0 + 1,
                      conversationHistory :=
                        slice_last 10
                          (conversationHistory c0
                           @ [\<lparr> h_timestamp = now', h_inputMode = mode, h_success = False,
                                h_language = currentLanguage c0 \<rparr>]) \<rparr>
          in
          if fallbackToText cfg \<and> maxFailuresBeforeFallback cfg \<le> failureCount c
               \<and> mode = voice_mode \<and> \<not> fallbackSuggested c
          then
            (\<lparr> shouldSuggestFallback = True, reason = multiple_failures,
               fs_failureCount = failureCount c,
               lastSuccessfulMode =
                 map_option h_inputMode (List.find h_success (rev (conversationHistory c))) \<rparr>,
             contexts(sid \<mapsto> c\<lparr> fallbackSuggested := True \<rparr>))
          else
            (\<lparr> shouldSuggestFallback = False, reason = multiple_failures,
               fs_failureCount = failureCount c, lastSuccessfulMode = None \<rparr>,
             contexts(sid \<mapsto> c)))"

text \<open>\<^verbatim>\<open>VoiceInterfaceImpl.detectLanguage\<close>: every failure ends in the default language.\<close>

definition detectLanguage ::
  "VoiceInterfaceConfig \<Rightarrow> SpeechToTextService \<Rightarrow> Blob \<Rightarrow> LanguageCode" where
  "detectLanguage cfg stt audioBlob =
     (case stt_detect stt of
        None \<Rightarrow> defaultLanguage cfg
      | Some d \<Rightarrow> (case d audioBlob of Inl e \<Rightarrow> defaultLanguage cfg | Inr l \<Rightarrow> l))"

definition fallback_message :: "nat \<Rightarrow> string" where
  "fallback_message n =
     ''Voice input failed after '' @ decimal n
       @ '' attempts. Please try typing your message instead.''"

text \<open>
  \<^verbatim>\<open>convertSpeechToText\<close> (the \<^verbatim>\<open>speechToText\<close> of the specification). The result is
  the resolved or rejected value, the registry after the call, and the calls made on the
  recognition service. \<^verbatim>\<open>if (sessionId)\<close> is a truthiness test.
\<close>

definition convertSpeechToText ::
  "VoiceInterfaceConfig \<Rightarrow> SpeechToTextService \<Rightarrow> registry \<Rightarrow> Blob \<Rightarrow> LanguageCode option
     \<Rightarrow> string option \<Rightarrow> nat \<Rightarrow> nat
     \<Rightarrow> (error + TranscriptionResult) \<times> registry \<times> svc_call list" where
  "convertSpeechToText cfg stt contexts audioBlob language sessionId' now now' =
     (if \<not> enableVoiceInput cfg then (Inl (Error ''Voice input is disabled''), contexts, [])
      else
        let targetLanguage = or_else language (detectLanguage cfg stt audioBlob);
            calls = (if \<not> truthy language \<and> stt_detect stt \<noteq> None
                     then [SvcDetectLanguage audioBlob] else [])
                    @ [SvcTranscribe audioBlob (Some targetLanguage)]
        in
        (case stt_transcribe stt audioBlob (Some targetLanguage) of
           Inr result \<Rightarrow>
             (Inr result,
              (case given sessionId' of
                 Some sid \<Rightarrow>
                   updateContextOnSuccess cfg contexts sid targetLanguage voice_mode now now'
               | None \<Rightarrow> contexts),
              calls)
         | Inl err \<Rightarrow>
             (case given sessionId' of
                Some sid \<Rightarrow>
                  (let (fallbackSuggestion, contexts') =
                         updateContextOnFailure cfg contexts sid voice_mode now now'
                   in
                   if shouldSuggestFallback fallbackSuggestion
                   then (Inl (VoiceInputError
                                (fallback_message (fs_failureCount fallbackSuggestion)) True
                                (Some fallbackSuggestion)),
                         contexts', calls)
                   else (Inl err, contexts', calls))
              | None \<Rightarrow> (Inl err, contexts, calls))))"

text \<open>
  A fallback-eligible error is the \<^verbatim>\<open>VoiceInputError\<close> whose \<^verbatim>\<open>suggestTextFallback\<close>
  is set and which carries a suggestion that recommends the switch.
\<close>

fun fallback_eligible :: "error + 'a \<Rightarrow> bool" where
  "fallback_eligible (Inl (VoiceInputError m b (Some s))) = (b \<and> shouldSuggestFallback s)"
| "fallback_eligible r = False"

subsection \<open>Text input\<close>

text \<open>White space and line terminators of ECMAScript, as UTF-16 code units.\<close>

definition is_js_whitespace :: "nat \<Rightarrow> bool" where
  "is_js_whitespace c =
     (c \<in> {9, 10, 11, 12, 13, 32, 160, 5760, 8232, 8233, 8239, 8287, 12288, 65279}
      \<or> (8192 \<le> c \<and> c \<le> 8202))"

definition trim :: "jstext \<Rightarrow> jstext" where
  "trim s = rev (dropWhile is_js_whitespace (rev (dropWhile is_js_whitespace s)))"

record ProcessedText =
  processedText :: jstext
  pt_detectedLanguage :: LanguageCode
  pt_confidence :: rat

text \<open>
  \<^verbatim>\<open>processTextInput\<close>. Nothing inside its \<^verbatim>\<open>try\<close> block can throw, so the
  \<^verbatim>\<open>catch\<close> branch (a failure update in text mode) has no run.
\<close>

definition processTextInput ::
  "VoiceInterfaceConfig \<Rightarrow> registry \<Rightarrow> jstext \<Rightarrow> string \<Rightarrow> LanguageCode option \<Rightarrow> nat \<Rightarrow> nat
     \<Rightarrow> (error + ProcessedText) \<times> registry" where
  "processTextInput cfg contexts txt sid language now now' =
     (if txt = [] \<or> length (trim txt) = 0
      then (Inl (Error ''Text input cannot be empty''), contexts)
      else
        let context = contexts sid;
            targetLanguage =
              or_else language
                (or_else (map_option currentLanguage context) (defaultLanguage cfg))
        in
        (Inr \<lparr> processedText = trim txt, pt_detectedLanguage = targetLanguage,
               pt_confidence = 1 \<rparr>,
         updateContextOnSuccess cfg contexts sid targetLanguage text_mode now now'))"

subsection \<open>Runs of calls on one session\<close>

text \<open>
  One \<^verbatim>\<open>convertSpeechToText\<close> call of a run: its audio, its optional language, the
  behaviour of the recognition service at that moment, and the two clock readings.
\<close>

record SpeechCall =
  sc_audio :: Blob
  sc_language :: "LanguageCode option"
  sc_service :: SpeechToTextService
  sc_now :: nat
  sc_now' :: nat

definition speech_call ::
  "VoiceInterfaceConfig \<Rightarrow> registry \<Rightarrow> string \<Rightarrow> SpeechCall
     \<Rightarrow> (error + TranscriptionResult) \<times> registry \<times> svc_call list" where
  "speech_call cfg contexts sid c =
     convertSpeechToText cfg (sc_service c) contexts (sc_audio c) (sc_language c) (Some sid)
       (sc_now c) (sc_now' c)"

text \<open>
  The recognition of a call fails: for the language handed over, the service rejects with
  an \<^verbatim>\<open>Error\<close> of its own. The class \<^verbatim>\<open>VoiceInputError\<close> belongs to the orchestrator,
  and a service that threw it could forge the recommendation.
\<close>

definition recognition_fails :: "VoiceInterfaceConfig \<Rightarrow> SpeechCall \<Rightarrow> bool" where
  "recognition_fails cfg c =
     (case stt_transcribe (sc_service c) (sc_audio c)
             (Some (or_else (sc_language c) (detectLanguage cfg (sc_service c) (sc_audio c))))
      of Inl (Error m) \<Rightarrow> True
       | Inl (VoiceInputError m b s) \<Rightarrow> False
       | Inr r \<Rightarrow> False)"

fun speech_run ::
  "VoiceInterfaceConfig \<Rightarrow> registry \<Rightarrow> string \<Rightarrow> SpeechCall list
     \<Rightarrow> (error + TranscriptionResult) list \<times> registry" where
  "speech_run cfg contexts sid [] = ([], contexts)"
| "speech_run cfg contexts sid (c # cs) =
     (let (r, contexts', calls) = speech_call cfg contexts sid c;
          (rs, final) = speech_run cfg contexts' sid cs
      in (r # rs, final))"

text \<open>The operations that write the history of a session, with their clock readings.\<close>

datatype interaction =
    SetContext LanguageCode InputMode nat
  | SuccessUpdate LanguageCode InputMode nat nat
  | FailureUpdate InputMode nat nat
  | ModeSwitch InputMode nat nat

fun perform :: "VoiceInterfaceConfig \<Rightarrow> registry \<Rightarrow> string \<Rightarrow> interaction \<Rightarrow> registry" where
  "perform cfg contexts sid (SetContext l m t) = setContext cfg contexts sid l m t"
| "perform cfg contexts sid (SuccessUpdate l m t t') =
     updateContextOnSuccess cfg contexts sid l m t t'"
| "perform cfg contexts sid (FailureUpdate m t t') =
     snd (updateContextOnFailure cfg contexts sid m t t')"
| "perform cfg contexts sid (ModeSwitch m t t') = snd (switchInputMode contexts sid m t t')"

fun perform_all ::
  "VoiceInterfaceConfig \<Rightarrow> registry \<Rightarrow> string \<Rightarrow> interaction list \<Rightarrow> registry" where
  "perform_all cfg contexts sid [] = contexts"
| "perform_all cfg contexts sid (i # is) = perform_all cfg (perform cfg contexts sid i) sid is"

text \<open>
  The record an interaction stands for, in the words of the data model: its time stamp,
  its mode, whether it succeeded, and its language, which for a failure and a mode switch
  is the language the session has at that moment.
\<close>

fun interaction_record :: "LanguageCode \<Rightarrow> interaction \<Rightarrow> HistoryEntry" where
  "interaction_record cur (SetContext l m t) =
     \<lparr> h_timestamp = t, h_inputMode = m, h_success = True, h_language = l \<rparr>"
| "interaction_record cur (SuccessUpdate l m t t') =
     \<lparr> h_timestamp = t', h_inputMode = m, h_success = True, h_language = l \<rparr>"
| "interaction_record cur (FailureUpdate m t t') =
     \<lparr> h_timestamp = t', h_inputMode = m, h_success = False, h_language = cur \<rparr>"
| "interaction_record cur (ModeSwitch m t t') =
     \<lparr> h_timestamp = t', h_inputMode = m, h_success = True, h_language = cur \<rparr>"

text \<open>
  Whether an operation writes the history at all: \<^verbatim>\<open>setContext\<close> and the success update
  return at once when \<^verbatim>\<open>preserveContext\<close> is off; the failure update and the mode switch
  do not read that option.
\<close>

fun writes_history :: "VoiceInterfaceConfig \<Rightarrow> interaction \<Rightarrow> bool" where
  "writes_history cfg (SetContext l m t) = preserveContext cfg"
| "writes_history cfg (SuccessUpdate l m t t') = preserveContext cfg"
| "writes_history cfg (FailureUpdate m t t') = True"
| "writes_history cfg (ModeSwitch m t t') = True"

fun creates_context :: "interaction list \<Rightarrow> bool" where
  "creates_context (SetContext l m t # is) = True"
| "creates_context is = False"

definition history_of :: "registry \<Rightarrow> string \<Rightarrow> HistoryEntry list" where
  "history_of contexts sid =
     (case contexts sid of None \<Rightarrow> [] | Some c \<Rightarrow> conversationHistory c)"

definition language_of :: "registry \<Rightarrow> string \<Rightarrow> LanguageCode" where
  "language_of contexts sid = (case contexts sid of None \<Rightarrow> [] | Some c \<Rightarrow> currentLanguage c)"

fun language_after :: "LanguageCode \<Rightarrow> interaction \<Rightarrow> LanguageCode" where
  "language_after cur (SetContext l m t) = l"
| "language_after cur (SuccessUpdate l m t t') = l"
| "language_after cur i = cur"

fun interaction_records :: "LanguageCode \<Rightarrow> interaction list \<Rightarrow> HistoryEntry list" where
  "interaction_records cur [] = []"
| "interaction_records cur (i # is) =
     interaction_record cur i # interaction_records (language_after cur i) is"

text \<open>Collaborators and calls of the closed instances on sessions.\<close>

definition failing_service :: SpeechToTextService where
  "failing_service =
     \<lparr> stt_transcribe = (\<lambda>b l. Inl (Error ''STT failed'')), stt_detect = None \<rparr>"

definition working_service :: SpeechToTextService where
  "working_service =
     \<lparr> stt_transcribe =
         (\<lambda>b l. Inr (sample_result (9 / 10) (case l of None \<Rightarrow> ''hi'' | Some x \<Rightarrow> x))),
       stt_detect = None \<rparr>"

definition call_on :: "SpeechToTextService \<Rightarrow> nat \<Rightarrow> SpeechCall" where
  "call_on svc t =
     \<lparr> sc_audio = sample_blob, sc_language = None, sc_service = svc, sc_now = t,
       sc_now' = t \<rparr>"

definition fresh_voice_session :: "VoiceInterfaceConfig \<Rightarrow> registry" where
  "fresh_voice_session cfg = setContext cfg Map.empty ''s1'' ''hi'' voice_mode 0"


definition eleven_interactions :: "interaction list" where
  "eleven_interactions =
     [SetContext ''hi'' voice_mode 0, FailureUpdate voice_mode 1 1,
      FailureUpdate voice_mode 2 2, ModeSwitch text_mode 3 3,
      SuccessUpdate ''en'' text_mode 4 4, SuccessUpdate ''en'' text_mode 5 5,
      ModeSwitch voice_mode 6 6, SuccessUpdate ''ta'' voice_mode 7 7,
      FailureUpdate voice_mode 8 8, SuccessUpdate ''ta'' voice_mode 9 9,
      SetContext ''bn'' text_mode 10]"

section \<open>Synthesis cascade\<close>

datatype AudioFormat = wav | mp3 | ogg | webm

datatype Gender = male | female | neutral

record AudioBlob =
  ab_data :: "nat list"
  ab_format :: AudioFormat
  ab_duration :: rat
  ab_sampleRate :: nat

record VoiceProfile =
  vp_language :: LanguageCode
  vp_gender :: Gender
  vp_speed :: rat
  vp_pitch :: rat

record TTSConfig =
  preferLocalTTS :: bool
  enableCloudTTS :: bool
  defaultVoiceProfile :: VoiceProfile
  audioFormat :: AudioFormat
  tts_sampleRate :: nat
  tts_enableCompression :: bool
  cloudTTSApiKey :: "string option"
  cloudTTSEndpoint :: "string option"

definition default_TTSConfig :: TTSConfig where
  "default_TTSConfig =
     \<lparr> preferLocalTTS = True, enableCloudTTS = True,
       defaultVoiceProfile =
         \<lparr> vp_language = ''hi'', vp_gender = female, vp_speed = 1, vp_pitch = 1 \<rparr>,
       audioFormat = wav, tts_sampleRate = 22050, tts_enableCompression = True,
       cloudTTSApiKey = None, cloudTTSEndpoint = None \<rparr>"

text \<open>The interfaces \<^verbatim>\<open>LocalTTSEngine\<close> and \<^verbatim>\<open>CloudTTSProvider\<close>, as records of answers.\<close>

record LocalTTSEngine =
  isLanguageSupported :: "LanguageCode \<Rightarrow> bool"
  local_synthesize :: "jstext \<Rightarrow> LanguageCode \<Rightarrow> VoiceProfile \<Rightarrow> error + AudioBlob"

record CloudTTSProvider =
  cloud_isAvailable :: bool
  cloud_synthesize :: "jstext \<Rightarrow> LanguageCode \<Rightarrow> VoiceProfile \<Rightarrow> error + AudioBlob"

datatype tts_call =
    LocalIsLanguageSupported LanguageCode
  | LocalSynthesize jstext LanguageCode VoiceProfile
  | CloudTTSIsAvailable
  | CloudSynthesize jstext LanguageCode VoiceProfile

definition tts_supportedLanguages :: "LanguageCode list" where
  "tts_supportedLanguages = [''en'', ''hi'', ''ta'', ''te'', ''bn'']"

text \<open>The body of the \<^verbatim>\<open>try\<close> block of \<^verbatim>\<open>synthesize\<close>; post-processing is the identity.\<close>

definition synthesize_attempt ::
  "TTSConfig \<Rightarrow> LocalTTSEngine \<Rightarrow> CloudTTSProvider \<Rightarrow> jstext \<Rightarrow> LanguageCode \<Rightarrow> VoiceProfile
     \<Rightarrow> (error + AudioBlob) \<times> tts_call list" where
  "synthesize_attempt cfg localEngine cloudProvider txt language v =
     (let asked = (if preferLocalTTS cfg then [LocalIsLanguageSupported language] else []) in
      if preferLocalTTS cfg \<and> isLanguageSupported localEngine language
      then (local_synthesize localEngine txt language v,
            asked @ [LocalSynthesize txt language v])
      else
        let asked' = asked @ (if enableCloudTTS cfg then [CloudTTSIsAvailable] else []) in
        if enableCloudTTS cfg \<and> cloud_isAvailable cloudProvider
        then (cloud_synthesize cloudProvider txt language v,
              asked' @ [CloudSynthesize txt language v])
        else if isLanguageSupported localEngine language
        then (local_synthesize localEngine txt language v,
              asked' @ [LocalIsLanguageSupported language, LocalSynthesize txt language v])
        else (Inl (Error (''No TTS engine available for language: '' @ language)),
              asked' @ [LocalIsLanguageSupported language]))"

definition synthesize ::
  "TTSConfig \<Rightarrow> LocalTTSEngine \<Rightarrow> CloudTTSProvider \<Rightarrow> jstext \<Rightarrow> LanguageCode
     \<Rightarrow> VoiceProfile option \<Rightarrow> (error + AudioBlob) \<times> tts_call list" where
  "synthesize cfg localEngine cloudProvider txt language v =
     (if txt = [] \<or> length (trim txt) = 0 then (Inl (Error ''Text cannot be empty''), [])
      else if language \<notin> set tts_supportedLanguages
      then (Inl (Error (''Language '' @ language @ '' is not supported'')), [])
      else
        let effectiveVoice =
              (case v of Some p \<Rightarrow> p
               | None \<Rightarrow> (defaultVoiceProfile cfg)\<lparr> vp_language := language \<rparr>);
            (r, calls) = synthesize_attempt cfg localEngine cloudProvider txt language
                           effectiveVoice
        in
        (case r of
           Inl e \<Rightarrow> (Inl (Error (''Text-to-speech synthesis failed: '' @ message e)), calls)
         | Inr a \<Rightarrow> (Inr a, calls)))"

text \<open>Engines of the closed instances: both would answer if they were asked.\<close>

definition sample_audio :: AudioBlob where
  "sample_audio =
     \<lparr> ab_data = [1, 2, 3], ab_format = wav, ab_duration = 1, ab_sampleRate = 22050 \<rparr>"

definition ready_local :: LocalTTSEngine where
  "ready_local =
     \<lparr> isLanguageSupported = (\<lambda>l. l \<in> set [''en'', ''hi'']),
       local_synthesize = (\<lambda>t l v. Inr sample_audio) \<rparr>"

definition ready_cloud :: CloudTTSProvider where
  "ready_cloud =
     \<lparr> cloud_isAvailable = True, cloud_synthesize = (\<lambda>t l v. Inr sample_audio) \<rparr>"

section \<open>Audio adapter\<close>



record CompressionSetting =
  bitrate :: nat
  cs_sampleRate :: nat
  quality :: rat

text \<open>
  Binary64 rounding. \<open>round_half_even\<close> is the nearest integer, the even one at a tie.
  \<open>double_of_nonneg x\<close> scales \<open>x\<close> by the weight of the smallest subnormal, keeps 53
  significant bits of the result (all of them below that, the subnormal range) and
  scales back; \<open>to_double\<close> extends it by the sign. This is the value of a decimal
  literal and of a product of two doubles, as long as the result stays below the largest
  double.
\<close>

definition round_half_even :: "rat \<Rightarrow> int" where
  "round_half_even y =
     (let f = \<lfloor>y\<rfloor>; d = y - of_int f
      in if d < 1 / 2 then f else if 1 / 2 < d then f + 1 else if even f then f else f + 1)"

definition double_of_nonneg :: "rat \<Rightarrow> rat" where
  "double_of_nonneg x =
     (let y = x * 2 ^ 1074; s = nat (bitlen \<lfloor>y\<rfloor> - 53)
      in of_int (round_half_even (y / 2 ^ s)) * 2 ^ s / 2 ^ 1074)"

definition to_double :: "rat \<Rightarrow> rat" where
  "to_double x = (if x < 0 then - double_of_nonneg (- x) else double_of_nonneg x)"



text \<open>
  \<^verbatim>\<open>performCompression\<close>, by the length of the buffer it allocates and fills:
  \<^verbatim>\<open>Math.floor\<close> of the double product of the byte length and the quality factor.
\<close>

definition performCompression :: "nat \<Rightarrow> CompressionSetting \<Rightarrow> nat" where
  "performCompression byteLength settings =
     nat \<lfloor>to_double (of_nat byteLength * quality settings)\<rfloor>"




section \<open>Cascade priority\<close>

text \<open>
  C1. When the cloud backend reports available and the confidence of its transcription is
  at least the configured threshold, \<^verbatim>\<open>transcribe\<close> returns exactly that transcription,
  and the only collaborator calls are the availability check and the transcription of the
  cloud backend: the offline Whisper service is neither asked nor run. The default
  threshold is 0.8.
\<close>

theorem transcribe_cloud_priority:
  assumes "isAvailable cloud"
    and "transcribe_b cloud audioBlob language = Inr r"
    and "confidenceThreshold cfg \<le> confidence r"
  shows "fst (transcribe cfg cloud whisper audioBlob language) = Inr r
       \<and> snd (transcribe cfg cloud whisper audioBlob language)
           = [CloudIsAvailable, CloudTranscribe audioBlob language]
       \<and> \<not> list_ex is_whisper_call (snd (transcribe cfg cloud whisper audioBlob language))
       \<and> confidenceThreshold default_STTConfig = 8 / 10"
  using assms by (simp add: transcribe_def default_STTConfig_def)

theorem transcribe_cloud_priority_witness:
  "fst (transcribe default_STTConfig (steady_backend True (96 / 100))
          (steady_backend True (92 / 100)) sample_blob (Some ''ta''))
     = Inr (sample_result (96 / 100) ''ta'')
   \<and> \<not> list_ex is_whisper_call
         (snd (transcribe default_STTConfig (steady_backend True (96 / 100))
                (steady_backend True (92 / 100)) sample_blob (Some ''ta'')))"
  using transcribe_cloud_priority
          [of "steady_backend True (96 / 100)" sample_blob "Some ''ta''"
              "sample_result (96 / 100) ''ta''" default_STTConfig
              "steady_backend True (92 / 100)"]
  by (simp add: steady_backend_def sample_result_def default_STTConfig_def)

section \<open>Cascade fallback\<close>

text \<open>
  C2, as the specification states it, fails on the code in both halves. With the cloud
  backend unavailable, the offline backend available and Hindi in its supported set, the
  call fails when \<^verbatim>\<open>fallbackToOffline\<close> is switched off. And with the default
  configuration, the cloud backend unavailable and a language outside the supported set
  of the offline backend, so that neither backend is usable in the sense of the claim,
  the call does not fail: the offline backend is run on that language and its
  transcription returned.
\<close>

theorem transcribe_offline_gate_counterexample:
  "\<not> isAvailable (steady_backend False (96 / 100))
   \<and> isAvailable (steady_backend True (92 / 100))
   \<and> ''hi'' \<in> set (getSupportedLanguages (steady_backend True (92 / 100)))
   \<and> fst (transcribe (default_STTConfig\<lparr> fallbackToOffline := False \<rparr>)
            (steady_backend False (96 / 100)) (steady_backend True (92 / 100))
            sample_blob (Some ''hi''))
       = Inl (Error ''No STT service available'')
   \<and> fst (transcribe (default_STTConfig\<lparr> fallbackToOffline := False \<rparr>)
            (steady_backend False (96 / 100)) (steady_backend True (92 / 100))
            sample_blob (Some ''hi''))
       \<noteq> transcribe_b (steady_backend True (92 / 100)) sample_blob (Some ''hi'')
   \<and> ''fr'' \<notin> set (getSupportedLanguages (steady_backend True (92 / 100)))
   \<and> transcribe default_STTConfig
         (steady_backend False (96 / 100)) (steady_backend True (92 / 100))
         sample_blob (Some ''fr'')
       = (Inr (sample_result (92 / 100) ''fr''),
          [CloudIsAvailable, WhisperIsAvailable, WhisperTranscribe sample_blob (Some ''fr'')])"
  by (simp add: transcribe_def offline_fallback_def steady_backend_def default_STTConfig_def)

text \<open>
  C2, amended. When the cloud backend is unavailable, \<^verbatim>\<open>transcribe\<close> asks the offline
  backend for its availability exactly when \<^verbatim>\<open>fallbackToOffline\<close> is set, and runs its
  transcription, once, exactly when in addition it reports available; the result is then
  whatever that transcription resolves to or rejects with. In every other case the call
  rejects with \<^verbatim>\<open>No STT service available\<close>. The call log is stated in full, so
  nothing else is invoked. The supported-language list of the offline backend is never
  read: replacing it changes neither the outcome nor the calls. The outcome is always a
  complete transcription or an error.
\<close>

theorem transcribe_cloud_unavailable:
  assumes "\<not> isAvailable cloud"
  shows "fst (transcribe cfg cloud whisper audioBlob language)
           = (if fallbackToOffline cfg \<and> isAvailable whisper
              then transcribe_b whisper audioBlob language
              else Inl (Error ''No STT service available''))
       \<and> snd (transcribe cfg cloud whisper audioBlob language)
           = CloudIsAvailable
             # (if fallbackToOffline cfg
                then WhisperIsAvailable
                     # (if isAvailable whisper then [WhisperTranscribe audioBlob language]
                        else [])
                else [])
       \<and> (list_ex is_whisper_transcribe (snd (transcribe cfg cloud whisper audioBlob language))
            \<longleftrightarrow> fallbackToOffline cfg \<and> isAvailable whisper)
       \<and> (list_ex is_whisper_call (snd (transcribe cfg cloud whisper audioBlob language))
            \<longleftrightarrow> fallbackToOffline cfg)
       \<and> transcribe cfg cloud (whisper\<lparr> getSupportedLanguages := ls \<rparr>) audioBlob language
           = transcribe cfg cloud whisper audioBlob language"
  using assms by (simp add: transcribe_def offline_fallback_def)

theorem transcribe_cloud_unavailable_witness:
  "transcribe default_STTConfig (steady_backend False (96 / 100))
     (steady_backend True (92 / 100)) sample_blob (Some ''fr'')
     = (Inr (sample_result (92 / 100) ''fr''),
        [CloudIsAvailable, WhisperIsAvailable, WhisperTranscribe sample_blob (Some ''fr'')])
   \<and> transcribe default_STTConfig (steady_backend False (96 / 100))
     (steady_backend False (92 / 100)) sample_blob (Some ''hi'')
     = (Inl (Error ''No STT service available''), [CloudIsAvailable, WhisperIsAvailable])
   \<and> transcribe (default_STTConfig\<lparr> fallbackToOffline := False \<rparr>)
     (steady_backend False (96 / 100)) (steady_backend True (92 / 100)) sample_blob
     (Some ''hi'')
     = (Inl (Error ''No STT service available''), [CloudIsAvailable])"
proof -
  have down: "\<not> isAvailable (steady_backend False (96 / 100))"
    by (simp add: steady_backend_def)
  note a = transcribe_cloud_unavailable [OF down, of default_STTConfig
      "steady_backend True (92 / 100)" sample_blob "Some ''fr''"]
  note b = transcribe_cloud_unavailable [OF down, of default_STTConfig
      "steady_backend False (92 / 100)" sample_blob "Some ''hi''"]
  note c = transcribe_cloud_unavailable [OF down,
      of "default_STTConfig\<lparr> fallbackToOffline := False \<rparr>"
      "steady_backend True (92 / 100)" sample_blob "Some ''hi''"]
  have "fallbackToOffline default_STTConfig"
    "\<not> fallbackToOffline (default_STTConfig\<lparr> fallbackToOffline := False \<rparr>)"
    "isAvailable (steady_backend True (92 / 100))"
    "\<not> isAvailable (steady_backend False (92 / 100))"
    "transcribe_b (steady_backend True (92 / 100)) sample_blob (Some ''fr'')
       = Inr (sample_result (92 / 100) ''fr'')"
    by (simp_all add: default_STTConfig_def steady_backend_def)
  with a b c show ?thesis by (simp add: prod_eq_iff)
qed

section \<open>Language resolution of speech input\<close>

text \<open>
  C6, as stated, fails on the code: a session whose current language is Tamil, a service
  that is no \<^verbatim>\<open>SpeechToTextServiceImpl\<close>, a default language English and no language
  from the caller give a transcription request in English.
\<close>

theorem speech_language_ignores_session_counterexample:
  "language_of (setContext default_VoiceInterfaceConfig Map.empty ''s1'' ''ta'' voice_mode 0) ''s1''
     = ''ta''
   \<and> snd (snd (convertSpeechToText (default_VoiceInterfaceConfig\<lparr> defaultLanguage := ''en'' \<rparr>)
        working_service
        (setContext default_VoiceInterfaceConfig Map.empty ''s1'' ''ta'' voice_mode 0)
        sample_blob None (Some ''s1'') 1 1))
     = [SvcTranscribe sample_blob (Some ''en'')]"
  by (simp add: convertSpeechToText_def default_VoiceInterfaceConfig_def working_service_def
        setContext_def language_of_def or_else_def detectLanguage_def Let_def)

text \<open>
  C6, amended. \<^verbatim>\<open>convertSpeechToText\<close> hands to the recognition service the language of
  the caller when one is supplied (and is not the empty string); else the language that
  the service detects from the audio, when the service is a \<^verbatim>\<open>SpeechToTextServiceImpl\<close>
  and the detection does not fail; else the configured default language. The session
  registry is not consulted: any other registry gives the same calls.
\<close>

theorem speech_language_resolution:
  assumes "enableVoiceInput cfg"
  shows "last (snd (snd (convertSpeechToText cfg stt contexts audioBlob language sessionId' t t')))
           = SvcTranscribe audioBlob
               (Some (case given language of
                        Some l \<Rightarrow> l
                      | None \<Rightarrow>
                          (case stt_detect stt of
                             None \<Rightarrow> defaultLanguage cfg
                           | Some d \<Rightarrow>
                               (case d audioBlob of
                                  Inl e \<Rightarrow> defaultLanguage cfg
                                | Inr l \<Rightarrow> l))))
       \<and> snd (snd (convertSpeechToText cfg stt contexts audioBlob language sessionId' t t'))
           = snd (snd (convertSpeechToText cfg stt others audioBlob language sessionId' t t'))"
  using assms
  by (auto simp add: convertSpeechToText_def or_else_def detectLanguage_def Let_def
        split: sum.splits option.splits prod.splits)

theorem speech_language_resolution_witness:
  "last (snd (snd (convertSpeechToText default_VoiceInterfaceConfig
          (SpeechToTextServiceImpl default_STTConfig (steady_backend True (96 / 100))
             (steady_backend True (92 / 100)))
          (setContext default_VoiceInterfaceConfig Map.empty ''s1'' ''ta'' voice_mode 0)
          sample_blob None (Some ''s1'') 1 1)))
     = SvcTranscribe sample_blob (Some ''hi'')"
  using speech_language_resolution
          [of default_VoiceInterfaceConfig
              "SpeechToTextServiceImpl default_STTConfig (steady_backend True (96 / 100))
                 (steady_backend True (92 / 100))"
              "setContext default_VoiceInterfaceConfig Map.empty ''s1'' ''ta'' voice_mode 0"
              sample_blob None "Some ''s1''" 1 1]
  by (simp add: default_VoiceInterfaceConfig_def SpeechToTextServiceImpl_def
        stt_detectLanguage_def steady_backend_def)

section \<open>Validation before any work\<close>

lemma dropWhile_all_iff: "(\<forall>x\<in>set (dropWhile P s). P x) \<longleftrightarrow> (\<forall>x\<in>set s. P x)"
proof
  assume all: "\<forall>x\<in>set (dropWhile P s). P x"
  have "dropWhile P s = []"
  proof (rule ccontr)
    assume ne: "dropWhile P s \<noteq> []"
    then have "\<not> P (hd (dropWhile P s))" by (rule hd_dropWhile)
    moreover from ne have "hd (dropWhile P s) \<in> set (dropWhile P s)" by simp
    ultimately show False using all by blast
  qed
  then show "\<forall>x\<in>set s. P x" by (simp add: dropWhile_eq_Nil_conv)
next
  assume "\<forall>x\<in>set s. P x"
  then show "\<forall>x\<in>set (dropWhile P s). P x" by (auto dest: set_dropWhileD)
qed

lemma trim_eq_Nil_iff: "trim s = [] \<longleftrightarrow> (\<forall>c\<in>set s. is_js_whitespace c)"
  by (simp add: trim_def dropWhile_eq_Nil_conv dropWhile_all_iff)

lemma trim_blank: "(\<forall>c\<in>set s. is_js_whitespace c) \<Longrightarrow> trim s = []"
  by (simp add: trim_eq_Nil_iff)

text \<open>
  C8. \<^verbatim>\<open>synthesize\<close> rejects an empty or white-space-only text with
  \<^verbatim>\<open>Text cannot be empty\<close>, and a language outside the supported list with
  \<^verbatim>\<open>Language ... is not supported\<close>; in both cases the call log is empty, so neither
  the local engine nor the cloud provider has been asked or run. In particular this holds
  for the empty text in English.
\<close>

theorem synthesize_validation_first:
  "(txt = [] \<or> (\<forall>c\<in>set txt. is_js_whitespace c)
      \<longrightarrow> synthesize cfg localEngine cloudProvider txt language v
            = (Inl (Error ''Text cannot be empty''), []))
   \<and> (\<not> (\<forall>c\<in>set txt. is_js_whitespace c) \<and> language \<notin> set tts_supportedLanguages
      \<longrightarrow> synthesize cfg localEngine cloudProvider txt language v
            = (Inl (Error (''Language '' @ language @ '' is not supported'')), []))
   \<and> synthesize cfg localEngine cloudProvider [] ''en'' v
            = (Inl (Error ''Text cannot be empty''), [])"
  by (auto simp add: synthesize_def trim_eq_Nil_iff)

theorem synthesize_validation_first_witness:
  "synthesize default_TTSConfig ready_local ready_cloud [32, 160] ''en'' None
     = (Inl (Error ''Text cannot be empty''), [])
   \<and> synthesize default_TTSConfig ready_local ready_cloud [104, 105] ''fr'' None
     = (Inl (Error ''Language fr is not supported''), [])"
  using synthesize_validation_first
          [of "[32, 160]" default_TTSConfig ready_local ready_cloud "''en''" None]
        synthesize_validation_first
          [of "[104, 105]" default_TTSConfig ready_local ready_cloud "''fr''" None]
  by (simp add: is_js_whitespace_def tts_supportedLanguages_def)

text \<open>
  C10. \<^verbatim>\<open>processTextInput\<close> on an empty or white-space-only text rejects with
  \<^verbatim>\<open>Text input cannot be empty\<close> and returns the registry it was given: every field of
  every context is as before.
\<close>

theorem processTextInput_blank_rejected:
  assumes "txt = [] \<or> (\<forall>c\<in>set txt. is_js_whitespace c)"
  shows "processTextInput cfg contexts txt sid language t t'
           = (Inl (Error ''Text input cannot be empty''), contexts)"
  using assms by (auto simp add: processTextInput_def trim_blank)

theorem processTextInput_blank_rejected_witness:
  "processTextInput default_VoiceInterfaceConfig
     (fresh_voice_session default_VoiceInterfaceConfig) [32, 9, 10] ''s1'' None 7 7
     = (Inl (Error ''Text input cannot be empty''),
        fresh_voice_session default_VoiceInterfaceConfig)"
  using processTextInput_blank_rejected
          [of "[32, 9, 10]" default_VoiceInterfaceConfig
              "fresh_voice_session default_VoiceInterfaceConfig" "''s1''" None 7 7]
  by (simp add: is_js_whitespace_def)

section \<open>Failures on sessions\<close>

text \<open>
  C9. When voice input is enabled, the session id has no context entry and the
  recognition service rejects, \<^verbatim>\<open>convertSpeechToText\<close> rejects with that very error, and
  the registry after the call is the registry before it; no entry exists for the id.
\<close>

theorem speech_failure_unknown_session:
  assumes "enableVoiceInput cfg"
    and "contexts sid = None"
    and "stt_transcribe stt audioBlob
           (Some (or_else language (detectLanguage cfg stt audioBlob))) = Inl err"
  shows "fst (convertSpeechToText cfg stt contexts audioBlob language (Some sid) t t') = Inl err
       \<and> fst (snd (convertSpeechToText cfg stt contexts audioBlob language (Some sid) t t'))
           = contexts
       \<and> fst (snd (convertSpeechToText cfg stt contexts audioBlob language (Some sid) t t')) sid
           = None"
  using assms
  by (cases "sid = []")
     (simp_all add: convertSpeechToText_def updateContextOnFailure_def Let_def)

theorem speech_failure_unknown_session_witness:
  "fst (convertSpeechToText default_VoiceInterfaceConfig failing_service
          (fresh_voice_session default_VoiceInterfaceConfig) sample_blob None (Some ''s2'') 5 5)
     = Inl (Error ''STT failed'')
   \<and> fst (snd (convertSpeechToText default_VoiceInterfaceConfig failing_service
          (fresh_voice_session default_VoiceInterfaceConfig) sample_blob None (Some ''s2'') 5 5))
     = fresh_voice_session default_VoiceInterfaceConfig"
  using speech_failure_unknown_session
          [of default_VoiceInterfaceConfig "fresh_voice_session default_VoiceInterfaceConfig"
              "''s2''" failing_service sample_blob None "Error ''STT failed''" 5 5]
  by (simp add: default_VoiceInterfaceConfig_def fresh_voice_session_def setContext_def
        failing_service_def)

section \<open>Runs of recognition failures\<close>

lemma slice_last_length: "length (slice_last n xs) \<le> n"
  by (simp add: slice_last_def)

lemma slice_last_snoc_absorb:
  "slice_last n (slice_last n xs @ ys) = slice_last n (xs @ ys)"
proof (cases "length xs \<le> n")
  case True
  then show ?thesis by (simp add: slice_last_def)
next
  case False
  then have "length xs + length ys - (length xs - n + n) + (length xs - n)
      = length xs + length ys - n" by arith
  with False show ?thesis by (simp add: slice_last_def)
qed

lemma given_Some [simp]: "s \<noteq> [] \<Longrightarrow> given (Some s) = Some s"
  by simp

lemma updateContextOnFailure_step:
  assumes "contexts sid = Some old"
  shows "\<exists>new. snd (updateContextOnFailure cfg contexts sid voice_mode t t') sid = Some new
     \<and> (\<forall>s. s \<noteq> sid \<longrightarrow> snd (updateContextOnFailure cfg contexts sid voice_mode t t') s = contexts s)
     \<and> failureCount new = failureCount old + 1
     \<and> (shouldSuggestFallback (fst (updateContextOnFailure cfg contexts sid voice_mode t t'))
          \<longleftrightarrow> fallbackToText cfg \<and> maxFailuresBeforeFallback cfg \<le> failureCount old + 1
               \<and> \<not> fallbackSuggested old)
     \<and> (fallbackSuggested new
          \<longleftrightarrow> fallbackSuggested old
               \<or> (fallbackToText cfg \<and> maxFailuresBeforeFallback cfg \<le> failureCount old + 1))"
  using assms by (auto simp add: updateContextOnFailure_def Let_def)

lemma speech_call_failure:
  assumes "enableVoiceInput cfg" and "sid \<noteq> []" and "recognition_fails cfg c"
    and "contexts sid = Some old"
  shows "\<exists>new. fst (snd (speech_call cfg contexts sid c)) sid = Some new
     \<and> failureCount new = failureCount old + 1
     \<and> (fallback_eligible (fst (speech_call cfg contexts sid c))
          \<longleftrightarrow> fallbackToText cfg \<and> maxFailuresBeforeFallback cfg \<le> failureCount old + 1
               \<and> \<not> fallbackSuggested old)
     \<and> (fallbackSuggested new
          \<longleftrightarrow> fallbackSuggested old
               \<or> (fallbackToText cfg \<and> maxFailuresBeforeFallback cfg \<le> failureCount old + 1))"
proof -
  obtain m where e: "stt_transcribe (sc_service c) (sc_audio c)
      (Some (or_else (sc_language c) (detectLanguage cfg (sc_service c) (sc_audio c))))
        = Inl (Error m)"
    using assms(3) by (auto simp add: recognition_fails_def split: sum.splits error.splits)
  obtain fs contexts' where u:
    "updateContextOnFailure cfg contexts sid voice_mode (sc_now c) (sc_now' c) = (fs, contexts')"
    by (cases "updateContextOnFailure cfg contexts sid voice_mode (sc_now c) (sc_now' c)")
  from updateContextOnFailure_step [where contexts = contexts and sid = sid and old = old
      and cfg = cfg and t = "sc_now c" and t' = "sc_now' c"] assms(4) u
  obtain new where new: "contexts' sid = Some new" "failureCount new = failureCount old + 1"
    "shouldSuggestFallback fs \<longleftrightarrow> fallbackToText cfg
        \<and> maxFailuresBeforeFallback cfg \<le> failureCount old + 1 \<and> \<not> fallbackSuggested old"
    "fallbackSuggested new \<longleftrightarrow> fallbackSuggested old
        \<or> (fallbackToText cfg \<and> maxFailuresBeforeFallback cfg \<le> failureCount old + 1)"
    by auto
  have "speech_call cfg contexts sid c =
      (if shouldSuggestFallback fs
       then (Inl (VoiceInputError (fallback_message (fs_failureCount fs)) True (Some fs)),
             contexts',
             (if \<not> truthy (sc_language c) \<and> stt_detect (sc_service c) \<noteq> None
              then [SvcDetectLanguage (sc_audio c)] else [])
             @ [SvcTranscribe (sc_audio c)
                 (Some (or_else (sc_language c) (detectLanguage cfg (sc_service c) (sc_audio c))))])
       else (Inl (Error m), contexts',
             (if \<not> truthy (sc_language c) \<and> stt_detect (sc_service c) \<noteq> None
              then [SvcDetectLanguage (sc_audio c)] else [])
             @ [SvcTranscribe (sc_audio c)
                 (Some (or_else (sc_language c) (detectLanguage cfg (sc_service c) (sc_audio c))))]))"
    using assms(1,2) e u by (simp add: speech_call_def convertSpeechToText_def Let_def)
  then show ?thesis using new by auto
qed


lemma speech_run_failures:
  assumes "enableVoiceInput cfg" and "sid \<noteq> []"
  shows "\<forall>c\<in>set cs. recognition_fails cfg c \<Longrightarrow> contexts sid = Some old \<Longrightarrow>
     \<exists>new. snd (speech_run cfg contexts sid cs) sid = Some new
       \<and> failureCount new = failureCount old + length cs
       \<and> length (fst (speech_run cfg contexts sid cs)) = length cs
       \<and> (\<forall>k<length cs. fallback_eligible (fst (speech_run cfg contexts sid cs) ! k)
             \<longleftrightarrow> fallbackToText cfg \<and> \<not> fallbackSuggested old
                  \<and> maxFailuresBeforeFallback cfg \<le> failureCount old + k + 1
                  \<and> (k = 0 \<or> failureCount old + k < maxFailuresBeforeFallback cfg))"
proof (induction cs arbitrary: contexts old)
  case Nil
  then show ?case by simp
next
  case (Cons c cs)
  obtain r contexts' calls where sc: "speech_call cfg contexts sid c = (r, contexts', calls)"
    by (cases "speech_call cfg contexts sid c")
  from Cons.prems have f: "recognition_fails cfg c" by simp
  from speech_call_failure [where cfg = cfg and sid = sid and c = c and contexts = contexts
      and old = old] assms f Cons.prems(2) sc
  obtain mid where mid: "contexts' sid = Some mid" "failureCount mid = failureCount old + 1"
    "fallback_eligible r \<longleftrightarrow> fallbackToText cfg
        \<and> maxFailuresBeforeFallback cfg \<le> failureCount old + 1 \<and> \<not> fallbackSuggested old"
    "fallbackSuggested mid \<longleftrightarrow> fallbackSuggested old
        \<or> (fallbackToText cfg \<and> maxFailuresBeforeFallback cfg \<le> failureCount old + 1)"
    by auto
  from Cons.prems have fs: "\<forall>c\<in>set cs. recognition_fails cfg c" by simp
  from Cons.IH [where contexts = contexts' and old = mid] fs mid(1)
  obtain new where new: "snd (speech_run cfg contexts' sid cs) sid = Some new"
    "failureCount new = failureCount mid + length cs"
    "length (fst (speech_run cfg contexts' sid cs)) = length cs"
    "\<forall>k<length cs. fallback_eligible (fst (speech_run cfg contexts' sid cs) ! k)
             \<longleftrightarrow> fallbackToText cfg \<and> \<not> fallbackSuggested mid
                  \<and> maxFailuresBeforeFallback cfg \<le> failureCount mid + k + 1
                  \<and> (k = 0 \<or> failureCount mid + k < maxFailuresBeforeFallback cfg)"
    by auto
  have run: "speech_run cfg contexts sid (c # cs)
      = (r # fst (speech_run cfg contexts' sid cs), snd (speech_run cfg contexts' sid cs))"
    using sc by (simp add: case_prod_beta)
  have elig: "fallback_eligible ((r # fst (speech_run cfg contexts' sid cs)) ! k)
             \<longleftrightarrow> fallbackToText cfg \<and> \<not> fallbackSuggested old
                  \<and> maxFailuresBeforeFallback cfg \<le> failureCount old + k + 1
                  \<and> (k = 0 \<or> failureCount old + k < maxFailuresBeforeFallback cfg)"
    if "k < length (c # cs)" for k
  proof (cases k)
    case 0
    then show ?thesis using mid(3) by auto
  next
    case (Suc j)
    with that have "j < length cs" by simp
    with new(4) have "fallback_eligible (fst (speech_run cfg contexts' sid cs) ! j)
             \<longleftrightarrow> fallbackToText cfg \<and> \<not> fallbackSuggested mid
                  \<and> maxFailuresBeforeFallback cfg \<le> failureCount mid + j + 1
                  \<and> (j = 0 \<or> failureCount mid + j < maxFailuresBeforeFallback cfg)"
      by blast
    then show ?thesis using Suc mid(2,4) by auto
  qed
  show ?case
    unfolding run using new(1,2,3) mid(2) elig by auto
qed




lemma map_of_three:
  assumes "length xs = 3"
  shows "map f xs = [f (xs ! 0), f (xs ! 1), f (xs ! 2)]"
proof -
  from assms obtain a b c where "xs = [a, b, c]"
    by (cases xs; cases "tl xs"; cases "tl (tl xs)") auto
  then show ?thesis by simp
qed

text \<open>
  C3, as stated, fails on the code: on a fresh voice session, with
  \<^verbatim>\<open>maxFailuresBeforeFallback\<close> 2 and the option \<^verbatim>\<open>fallbackToText\<close> switched off, two
  consecutive failures bring \<^verbatim>\<open>failureCount\<close> to 2 and neither raises a fallback-eligible
  error.
\<close>

theorem fallback_gate_counterexample:
  "map_option failureCount
     (snd (speech_run (default_VoiceInterfaceConfig\<lparr> fallbackToText := False \<rparr>)
             (fresh_voice_session default_VoiceInterfaceConfig) ''s1''
             [call_on failing_service 1, call_on failing_service 2]) ''s1'')
     = Some 2
   \<and> maxFailuresBeforeFallback (default_VoiceInterfaceConfig\<lparr> fallbackToText := False \<rparr>) = 2
   \<and> map fallback_eligible
       (fst (speech_run (default_VoiceInterfaceConfig\<lparr> fallbackToText := False \<rparr>)
               (fresh_voice_session default_VoiceInterfaceConfig) ''s1''
               [call_on failing_service 1, call_on failing_service 2]))
     = [False, False]"
  by (simp add: speech_call_def convertSpeechToText_def updateContextOnFailure_def
        default_VoiceInterfaceConfig_def fresh_voice_session_def setContext_def
        call_on_def failing_service_def or_else_def detectLanguage_def Let_def
        slice_last_def)

text \<open>
  C3, amended. Let voice input and \<^verbatim>\<open>fallbackToText\<close> be enabled,
  \<^verbatim>\<open>maxFailuresBeforeFallback\<close> be at least 1 and the session id a non-empty string
  with a context entry whose \<^verbatim>\<open>failureCount\<close> is 0 and whose \<^verbatim>\<open>fallbackSuggested\<close> is
  false. After \<open>N\<close> consecutive failing \<^verbatim>\<open>convertSpeechToText\<close> calls the
  \<^verbatim>\<open>failureCount\<close> of the session is \<open>N\<close>, and the \<open>k\<close>-th failure of the run (counted
  from one) raises a fallback-eligible error exactly when \<open>k\<close> is
  \<^verbatim>\<open>maxFailuresBeforeFallback\<close>: none before it, none after it, and none at all in a run
  shorter than that.
\<close>

theorem consecutive_failures:
  assumes "enableVoiceInput cfg" and "fallbackToText cfg"
    and "1 \<le> maxFailuresBeforeFallback cfg"
    and "sid \<noteq> []"
    and "contexts sid = Some old"
    and "failureCount old = 0" and "\<not> fallbackSuggested old"
    and "\<forall>c\<in>set cs. recognition_fails cfg c"
  shows "map_option failureCount (snd (speech_run cfg contexts sid cs) sid) = Some (length cs)
       \<and> length (fst (speech_run cfg contexts sid cs)) = length cs
       \<and> (\<forall>k<length cs. fallback_eligible (fst (speech_run cfg contexts sid cs) ! k)
             \<longleftrightarrow> k + 1 = maxFailuresBeforeFallback cfg)"
proof -
  from speech_run_failures [where cfg = cfg and sid = sid and cs = cs and contexts = contexts
      and old = old] assms(1,4,5,8)
  obtain new where new: "snd (speech_run cfg contexts sid cs) sid = Some new"
    "failureCount new = failureCount old + length cs"
    "length (fst (speech_run cfg contexts sid cs)) = length cs"
    "\<forall>k<length cs. fallback_eligible (fst (speech_run cfg contexts sid cs) ! k)
             \<longleftrightarrow> fallbackToText cfg \<and> \<not> fallbackSuggested old
                  \<and> maxFailuresBeforeFallback cfg \<le> failureCount old + k + 1
                  \<and> (k = 0 \<or> failureCount old + k < maxFailuresBeforeFallback cfg)"
    by auto
  have "fallback_eligible (fst (speech_run cfg contexts sid cs) ! k)
          \<longleftrightarrow> k + 1 = maxFailuresBeforeFallback cfg" if "k < length cs" for k
  proof -
    from new(4) that have "fallback_eligible (fst (speech_run cfg contexts sid cs) ! k)
             \<longleftrightarrow> fallbackToText cfg \<and> \<not> fallbackSuggested old
                  \<and> maxFailuresBeforeFallback cfg \<le> failureCount old + k + 1
                  \<and> (k = 0 \<or> failureCount old + k < maxFailuresBeforeFallback cfg)"
      by blast
    then show ?thesis using assms(2,3,6,7) by auto
  qed
  then show ?thesis using new(1,2,3) assms(6) by simp
qed

theorem consecutive_failures_witness:
  "map_option failureCount
     (snd (speech_run default_VoiceInterfaceConfig
             (fresh_voice_session default_VoiceInterfaceConfig) ''s1''
             [call_on failing_service 1, call_on failing_service 2, call_on failing_service 3])
        ''s1'')
     = Some 3
   \<and> map fallback_eligible
       (fst (speech_run default_VoiceInterfaceConfig
               (fresh_voice_session default_VoiceInterfaceConfig) ''s1''
               [call_on failing_service 1, call_on failing_service 2,
                call_on failing_service 3]))
     = [False, True, False]"
proof -
  define cs where "cs = [call_on failing_service 1, call_on failing_service 2,
                         call_on failing_service 3]"
  define run where "run = speech_run default_VoiceInterfaceConfig
                (fresh_voice_session default_VoiceInterfaceConfig) ''s1'' cs"
  define old where "old = \<lparr> sessionId = ''s1'', currentLanguage = ''hi'',
               inputMode = voice_mode, lastInteraction = 0, failureCount = 0,
               totalInteractions = 1, fallbackSuggested = False,
               conversationHistory = [\<lparr> h_timestamp = 0, h_inputMode = voice_mode,
                  h_success = True, h_language = ''hi'' \<rparr>] \<rparr>"
  have len: "length cs = 3" by (simp add: cs_def)
  have fails: "\<forall>c\<in>set cs. recognition_fails default_VoiceInterfaceConfig c"
    by (simp add: cs_def recognition_fails_def call_on_def failing_service_def)
  have ctx: "fresh_voice_session default_VoiceInterfaceConfig ''s1'' = Some old"
    by (simp add: old_def fresh_voice_session_def setContext_def
          default_VoiceInterfaceConfig_def slice_last_def)
  have cfg: "enableVoiceInput default_VoiceInterfaceConfig"
    "fallbackToText default_VoiceInterfaceConfig"
    "1 \<le> maxFailuresBeforeFallback default_VoiceInterfaceConfig"
    by (simp_all add: default_VoiceInterfaceConfig_def)
  have limit: "maxFailuresBeforeFallback default_VoiceInterfaceConfig = 2"
    by (simp add: default_VoiceInterfaceConfig_def)
  have ne: "''s1'' \<noteq> []" by simp
  have fresh: "failureCount old = 0" "\<not> fallbackSuggested old" by (simp_all add: old_def)
  from consecutive_failures [where cfg = default_VoiceInterfaceConfig
      and contexts = "fresh_voice_session default_VoiceInterfaceConfig" and sid = "''s1''"
      and old = old and cs = cs] cfg ne ctx fresh fails
  have a: "map_option failureCount (snd run ''s1'') = Some (length cs)"
    and b: "length (fst run) = length cs"
    and c: "\<forall>k<length cs. fallback_eligible (fst run ! k)
              \<longleftrightarrow> k + 1 = maxFailuresBeforeFallback default_VoiceInterfaceConfig"
    unfolding run_def by blast+
  from c len limit have "fallback_eligible (fst run ! 0) = False"
    "fallback_eligible (fst run ! 1) = True" "fallback_eligible (fst run ! 2) = False"
    by simp_all
  moreover from b len have "map fallback_eligible (fst run)
      = [fallback_eligible (fst run ! 0), fallback_eligible (fst run ! 1),
         fallback_eligible (fst run ! 2)]"
    by (simp add: map_of_three)
  ultimately have m: "map fallback_eligible (fst run) = [False, True, False]" by simp
  from a len have n: "map_option failureCount (snd run ''s1'') = Some 3" by simp
  from n m show ?thesis unfolding run_def cs_def by (rule conjI)
qed

section \<open>Compression levels\<close>

subsection \<open>Rounding to the nearest double\<close>

lemma round_half_even_of_int: "round_half_even (of_int i) = i"
  by (simp add: round_half_even_def)



lemma bitlen_floor_bound:
  fixes x :: rat
  assumes "0 \<le> x" and "x < 2 ^ 53"
  shows "nat (bitlen \<lfloor>x * 2 ^ 1074\<rfloor> - 53) \<le> 1074"
proof -
  have "x * 2 ^ 1074 < 2 ^ 53 * 2 ^ 1074" using assms by simp
  then have "x * 2 ^ 1074 < 2 ^ 1127" by (simp add: power_add [symmetric])
  then have "\<lfloor>x * 2 ^ 1074\<rfloor> < 2 ^ 1127" by (simp add: floor_less_iff)
  then have "bitlen \<lfloor>x * 2 ^ 1074\<rfloor> \<le> 1127"
    using bitlen_le_iff_power [of "\<lfloor>x * 2 ^ 1074\<rfloor>" 1127] by simp
  then show ?thesis by simp
qed



lemma double_of_nonneg_int:
  assumes "n < 2 ^ 53"
  shows "double_of_nonneg (of_nat n) = of_nat n"
proof -
  define y :: rat where "y = of_nat n * 2 ^ 1074"
  define s where "s = nat (bitlen \<lfloor>y\<rfloor> - 53)"
  have "(of_nat n :: rat) < 2 ^ 53" using assms
    by (metis of_nat_less_iff of_nat_numeral of_nat_power)
  then have s: "s \<le> 1074" unfolding s_def y_def
    by (intro bitlen_floor_bound) simp_all
  then have split: "(2::rat) ^ 1074 = 2 ^ (1074 - s) * 2 ^ s"
    by (simp add: power_add [symmetric])
  have "y / 2 ^ s = of_int (int n * 2 ^ (1074 - s))"
    unfolding y_def split by simp
  then have "round_half_even (y / 2 ^ s) = int n * 2 ^ (1074 - s)"
    by (simp only: round_half_even_of_int)
  then have "(of_int (round_half_even (y / 2 ^ s)) :: rat) * 2 ^ s / 2 ^ 1074
      = of_nat n * 2 ^ (1074 - s) * 2 ^ s / 2 ^ 1074"
    by simp
  also have "\<dots> = of_nat n" unfolding split by (simp add: mult.assoc)
  finally show ?thesis by (simp add: double_of_nonneg_def Let_def y_def s_def)
qed

lemma round_half_even_nearest:
  assumes "of_int i - 1 / 2 < y" and "y < of_int i + 1 / 2"
  shows "round_half_even y = i"
proof (cases "of_int i \<le> y")
  case True
  with assms(2) have "\<lfloor>y\<rfloor> = i" by (intro floor_unique) simp_all
  with assms(2) show ?thesis by (simp add: round_half_even_def Let_def)
next
  case False
  with assms(1) have f: "\<lfloor>y\<rfloor> = i - 1" by (intro floor_unique) simp_all
  from assms(1) have "1 / 2 < y - of_int (i - 1)" by simp
  then show ?thesis unfolding round_half_even_def Let_def f by simp
qed

lemma double_of_nonneg_scaled:
  fixes x :: rat
  assumes "2 ^ 52 \<le> x * 2 ^ t" and "x * 2 ^ t < 2 ^ 53" and "t \<le> 1074"
  shows "double_of_nonneg x = of_int (round_half_even (x * 2 ^ t)) / 2 ^ t"
proof -
  define y where "y = x * 2 ^ 1074"
  define s where "s = nat (bitlen \<lfloor>y\<rfloor> - 53)"
  from assms(3) have split: "(2::rat) ^ 1074 = 2 ^ t * 2 ^ (1074 - t)"
    by (simp add: power_add [symmetric])
  have y: "y = x * 2 ^ t * 2 ^ (1074 - t)" unfolding y_def split by simp
  have "(2::rat) ^ 52 * 2 ^ (1074 - t) \<le> y" unfolding y using assms(1) by simp
  then have "of_int (2 ^ (52 + (1074 - t))) \<le> y" by (simp add: power_add)
  then have lo: "2 ^ (52 + (1074 - t)) \<le> \<lfloor>y\<rfloor>" by (simp only: le_floor_iff)
  have "y < 2 ^ 53 * 2 ^ (1074 - t)" unfolding y using assms(2) by simp
  then have "y < of_int (2 ^ (53 + (1074 - t)))" by (simp add: power_add)
  then have hi: "\<lfloor>y\<rfloor> < 2 ^ (53 + (1074 - t))" by (simp only: floor_less_iff)
  define c where "c = 53 + (1074 - t)"
  have hi': "\<lfloor>y\<rfloor> < 2 ^ c" using hi by (simp add: c_def)
  have lo': "2 ^ (c - 1) \<le> \<lfloor>y\<rfloor>" using lo by (simp add: c_def)
  have "bitlen \<lfloor>y\<rfloor> \<le> int c"
    using hi' bitlen_le_iff_power [of "\<lfloor>y\<rfloor>" "int c"] by simp
  moreover have "int c \<le> bitlen \<lfloor>y\<rfloor>"
    using lo' bitlen_ge_iff_power [of "int c" "\<lfloor>y\<rfloor>"] by simp
  ultimately have "bitlen \<lfloor>y\<rfloor> = int c" by simp
  then have s: "s = 1074 - t" by (simp add: s_def c_def)
  have "y / 2 ^ s = x * 2 ^ t" unfolding y s by simp
  then have "(of_int (round_half_even (y / 2 ^ s)) :: rat) * 2 ^ s / 2 ^ 1074
      = of_int (round_half_even (x * 2 ^ t)) * 2 ^ (1074 - t) / (2 ^ t * 2 ^ (1074 - t))"
    unfolding s split by simp
  also have "\<dots> = of_int (round_half_even (x * 2 ^ t)) / 2 ^ t" by simp
  finally show ?thesis by (simp add: double_of_nonneg_def Let_def y_def s_def)
qed


lemma to_double_one: "to_double 1 = 1"
  using double_of_nonneg_int [of 1] by (simp add: to_double_def)




text \<open>
  The rounding is visible in the table: at quality 0.7 a buffer of 163850 bytes is cut
  to 114694 bytes, one less than the floor of the exact product.
\<close>

lemma to_double_seven_tenths: "to_double (7 / 10) = 3152519739159347 / 4503599627370496"
proof -
  have "double_of_nonneg (7 / 10) = of_int (round_half_even (7 / 10 * 2 ^ 53)) / 2 ^ 53"
    by (rule double_of_nonneg_scaled) simp_all
  also have "round_half_even (7 / 10 * 2 ^ 53) = 6305039478318694"
    by (rule round_half_even_nearest) simp_all
  finally show ?thesis by (simp add: to_double_def)
qed

lemma performCompression_rounds:
  "performCompression 163850
     \<lparr> bitrate = 96, cs_sampleRate = 22050, quality = to_double (7 / 10) \<rparr> = 114694"
proof -
  define x :: rat where "x = 163850 * (3152519739159347 / 4503599627370496)"
  have "double_of_nonneg x = of_int (round_half_even (x * 2 ^ 36)) / 2 ^ 36"
    by (rule double_of_nonneg_scaled) (simp_all add: x_def)
  also have "round_half_even (x * 2 ^ 36) = 7881780384235519"
    by (rule round_half_even_nearest) (simp_all add: x_def)
  finally have "double_of_nonneg x = 7881780384235519 / 68719476736" by simp
  moreover have "to_double x = double_of_nonneg x" by (simp add: to_double_def x_def)
  ultimately have "\<lfloor>to_double x\<rfloor> = 114694" by (simp add: floor_unique)
  then show ?thesis
    by (simp add: performCompression_def to_double_seven_tenths x_def)
qed

subsection \<open>The table at levels 1 and 10\<close>










section \<open>Suppression of repeated recommendations\<close>






section \<open>Bounded history\<close>

lemma slice_last_covered: "n \<le> length ys \<Longrightarrow> slice_last n (xs @ ys) = slice_last n ys"
  by (simp add: slice_last_def)

lemma slice_last_full: "n \<le> length ys \<Longrightarrow> length (slice_last n ys) = n"
  by (simp add: slice_last_def)

lemma length_interaction_records: "length (interaction_records cur ops) = length ops"
  by (induction ops arbitrary: cur) simp_all

lemma perform_history:
  assumes "writes_history cfg i" and "contexts sid \<noteq> None \<or> creates_context (i # rest)"
  shows "perform cfg contexts sid i sid \<noteq> None
       \<and> history_of (perform cfg contexts sid i) sid
           = slice_last 10 (history_of contexts sid
                            @ [interaction_record (language_of contexts sid) i])
       \<and> language_of (perform cfg contexts sid i) sid
           = language_after (language_of contexts sid) i"
  using assms
  by (cases i)
     (auto simp add: setContext_def updateContextOnSuccess_def updateContextOnFailure_def
        switchInputMode_def history_of_def language_of_def Let_def split: option.splits)

lemma perform_all_history:
  assumes "\<forall>i\<in>set ops. writes_history cfg i" and "ops \<noteq> []"
    and "contexts sid \<noteq> None \<or> creates_context ops"
  shows "perform_all cfg contexts sid ops sid \<noteq> None
       \<and> history_of (perform_all cfg contexts sid ops) sid
           = slice_last 10 (history_of contexts sid
                            @ interaction_records (language_of contexts sid) ops)"
  using assms
proof (induction ops arbitrary: contexts)
  case Nil
  then show ?case by simp
next
  case (Cons i rest)
  from Cons.prems have w: "writes_history cfg i" by simp
  note step = perform_history [where cfg = cfg and i = i and contexts = contexts and sid = sid
      and rest = rest, OF w Cons.prems(3)]
  show ?case
  proof (cases "rest = []")
    case True
    with step show ?thesis by simp
  next
    case False
    from Cons.prems have ws: "\<forall>i\<in>set rest. writes_history cfg i" by simp
    from step have ex: "perform cfg contexts sid i sid \<noteq> None
        \<or> creates_context rest" by simp
    from Cons.IH [where contexts = "perform cfg contexts sid i", OF ws False ex] step
    show ?thesis by (simp add: slice_last_snoc_absorb)
  qed
qed

text \<open>
  C5. Take any non-empty sequence of operations that write the history of a session
  (\<^verbatim>\<open>setContext\<close>, success update, failure update, mode switch; the first two only with
  \<^verbatim>\<open>preserveContext\<close> on), on a session that has a context or is created by the first
  operation. Afterwards the history has at most 10 entries: it is the last 10 of the old
  history followed by the records of the operations, in order. After more than 10
  operations it has exactly 10 entries, the records of the 10 most recent operations in
  the order of insertion. A one-element sequence gives the bound after every single
  operation, whatever the length of the history before it.
\<close>

theorem history_bounded:
  assumes "\<forall>i\<in>set ops. writes_history cfg i" and "ops \<noteq> []"
    and "contexts sid \<noteq> None \<or> creates_context ops"
  shows "length (history_of (perform_all cfg contexts sid ops) sid) \<le> 10
       \<and> history_of (perform_all cfg contexts sid ops) sid
           = slice_last 10 (history_of contexts sid
                            @ interaction_records (language_of contexts sid) ops)
       \<and> (10 < length ops \<longrightarrow>
            length (history_of (perform_all cfg contexts sid ops) sid) = 10
            \<and> history_of (perform_all cfg contexts sid ops) sid
                = slice_last 10 (interaction_records (language_of contexts sid) ops))"
proof -
  from perform_all_history [where cfg = cfg and ops = ops and contexts = contexts
      and sid = sid] assms
  have eq: "history_of (perform_all cfg contexts sid ops) sid
           = slice_last 10 (history_of contexts sid
                            @ interaction_records (language_of contexts sid) ops)"
    by simp
  have "length (history_of (perform_all cfg contexts sid ops) sid) \<le> 10"
    unfolding eq by (rule slice_last_length)
  moreover have "length (history_of (perform_all cfg contexts sid ops) sid) = 10
            \<and> history_of (perform_all cfg contexts sid ops) sid
                = slice_last 10 (interaction_records (language_of contexts sid) ops)"
    if "10 < length ops"
  proof -
    from that have "10 \<le> length (interaction_records (language_of contexts sid) ops)"
      by (simp add: length_interaction_records)
    then show ?thesis unfolding eq
      by (simp add: slice_last_covered slice_last_full)
  qed
  ultimately show ?thesis using eq by blast
qed

theorem history_bounded_witness:
  "map h_timestamp
     (history_of (perform_all default_VoiceInterfaceConfig Map.empty ''s1''
                    eleven_interactions) ''s1'')
     = [1, 2, 3, 4, 5, 6, 7, 8, 9, 10]
   \<and> map h_language
     (history_of (perform_all default_VoiceInterfaceConfig Map.empty ''s1''
                    eleven_interactions) ''s1'')
     = [''hi'', ''hi'', ''hi'', ''en'', ''en'', ''en'', ''ta'', ''ta'', ''ta'', ''bn'']"
proof -
  have w: "\<forall>i\<in>set eleven_interactions. writes_history default_VoiceInterfaceConfig i"
    by (simp add: eleven_interactions_def default_VoiceInterfaceConfig_def)
  have ne: "eleven_interactions \<noteq> []" by (simp add: eleven_interactions_def)
  have cr: "Map.empty ''s1'' \<noteq> None \<or> creates_context eleven_interactions"
    by (simp add: eleven_interactions_def)
  have long: "10 < length eleven_interactions" by (simp add: eleven_interactions_def)
  have recs: "slice_last 10 (interaction_records (language_of Map.empty ''s1'')
                 eleven_interactions)
      = tl (interaction_records [] eleven_interactions)"
    by (simp add: slice_last_def eleven_interactions_def language_of_def)
  from history_bounded [where cfg = default_VoiceInterfaceConfig and ops = eleven_interactions
      and contexts = Map.empty and sid = "''s1''"] w ne cr long
  have "history_of (perform_all default_VoiceInterfaceConfig Map.empty ''s1''
                    eleven_interactions) ''s1''
      = slice_last 10 (interaction_records (language_of Map.empty ''s1'') eleven_interactions)"
    by blast
  then show ?thesis unfolding recs by (simp add: eleven_interactions_def)
qed

end
